theory Spec2Isabelle
  imports Main
begin

section \<open>Go values\<close>

text \<open>
  The controllers and the orchestrators pass data around as \<^verbatim>\<open>interface{}\<close> values and as
  \<^verbatim>\<open>types.M\<close> (a \<^verbatim>\<open>map[string]interface{}\<close>). A value is the nil interface, a string, an int,
  a bool, a \<^verbatim>\<open>[]interface{}\<close>, a \<^verbatim>\<open>[]string\<close> or a map. A map is kept as an association list
  with at most one entry per key; a variable of map type that may be the nil map is a
  \<open>gmap option\<close>.
\<close>

datatype gval =
    GoNil
  | Str string
  | GoInt int
  | Bool bool
  | Slice "gval list"
  | StrSlice "string list"
  | Map "(string \<times> gval) list"

type_synonym gmap = "(string \<times> gval) list"

datatype panic = TypeAssertion | IndexOutOfRange | NilMapWrite | SliceBounds | NilDereference

datatype 'a outcome = Panicked panic | Returned 'a

text \<open>\<^verbatim>\<open>m[k]\<close>: a missing key, and any key of the nil map, reads as the nil interface.\<close>

definition mget :: "gmap option \<Rightarrow> string \<Rightarrow> gval" where
  "mget m k = (case m of None \<Rightarrow> GoNil
               | Some kvs \<Rightarrow> (case map_of kvs k of None \<Rightarrow> GoNil | Some v \<Rightarrow> v))"

text \<open>\<^verbatim>\<open>delete(m, k)\<close>: a no-op on the nil map and on a missing key.\<close>

definition mdelete :: "string \<Rightarrow> gmap option \<Rightarrow> gmap option" where
  "mdelete k m = map_option (filter (\<lambda>kv. fst kv \<noteq> k)) m"

text \<open>\<^verbatim>\<open>m[k] = v\<close> on a map that is not nil.\<close>

fun mput :: "string \<Rightarrow> gval \<Rightarrow> gmap \<Rightarrow> gmap" where
  "mput k v [] = [(k, v)]"
| "mput k v (kv # m) = (if fst kv = k then (k, v) # m else kv # mput k v m)"

text \<open>\<^verbatim>\<open>x.(string)\<close>: the unchecked type assertion panics on anything that is not a string.\<close>

definition assertString :: "gval \<Rightarrow> string outcome" where
  "assertString v = (case v of Str s \<Rightarrow> Returned s | _ \<Rightarrow> Panicked TypeAssertion)"

section \<open>Errors\<close>

text \<open>
  Package \<^verbatim>\<open>errs\<close> is a collaborator: its numeric codes are kept symbolic, \<^verbatim>\<open>errs.E(code, msg)\<close>
  is the constructor \<open>E\<close>.
\<close>

datatype errcode = InvalidJSON | ObjectNotFound | InvalidQuery | Code int

datatype err = E errcode string

section \<open>The Destroy orchestrator (rest/destroy.go)\<close>

text \<open>
  \<^verbatim>\<open>rest.Auth\<close>, as far as the sources use it: the fields \<^verbatim>\<open>InstallationID\<close>, \<^verbatim>\<open>IsMaster\<close>,
  \<^verbatim>\<open>User\<close> (a map, nil for an anonymous caller) and \<^verbatim>\<open>UserRoles\<close>. A \<^verbatim>\<open>*Auth\<close> that may be nil is
  a \<open>rest_Auth option\<close>.
\<close>

record rest_Auth =
  IsMaster :: bool
  Auth_InstallationID :: string
  User :: "gmap option"
  UserRoles :: "string list"

record Destroy =
  auth :: "rest_Auth option"
  className :: string
  query :: "gmap option"
  originalData :: "gmap option"

definition NewDestroy :: "rest_Auth option \<Rightarrow> string \<Rightarrow> gmap option \<Rightarrow> gmap option \<Rightarrow> Destroy" where
  "NewDestroy a c q od = \<lparr>auth = a, className = c, query = q, originalData = od\<rparr>"

datatype trigger_type = TypeBeforeSave | TypeAfterSave | TypeBeforeDelete | TypeAfterDelete

text \<open>
  The collaborators of \<^verbatim>\<open>Destroy\<close> that are not part of the sources are parameters: what the
  trigger dispatcher answers, what role resolution finds, what the Store's delete answers.

  Modelled from the spec: \<^verbatim>\<open>Auth.GetUserRoles\<close> is missing from the sources; by the spec the
  roles are resolved from the user's role graph and cached on the authorization context,
  so the call stores the resolved list in \<^verbatim>\<open>UserRoles\<close> and changes nothing else; the
  error it may answer is there for the caller to look at.
\<close>

record rest_env =
  RunTrigger :: "trigger_type \<Rightarrow> string \<Rightarrow> rest_Auth option \<Rightarrow> gmap option \<Rightarrow> gmap option \<Rightarrow> err option"
  GetUserRoles :: "rest_Auth \<Rightarrow> string list \<times> err option"
  orm_Destroy :: "string \<Rightarrow> gmap option \<Rightarrow> gmap \<Rightarrow> err option"

text \<open>Every call that leaves the orchestrator is recorded, in order.\<close>

datatype call =
    CallRunTrigger trigger_type string "rest_Auth option" "gmap option" "gmap option"
  | CallGetUserRoles rest_Auth
  | CallOrmDestroy string "gmap option" gmap

text \<open>
  Each step returns its \<^verbatim>\<open>error\<close> result (always nil in the source) and the calls it made;
  \<^verbatim>\<open>handleUserRoles\<close> also returns the orchestrator, whose authorization it has changed. A
  step that reads a field of \<^verbatim>\<open>d.auth\<close> panics when \<^verbatim>\<open>d.auth\<close> is nil.
\<close>

definition handleSession :: "Destroy \<Rightarrow> err option" where
  "handleSession d =
     (if className d \<noteq> ''_Session'' then None
      else (let sessionToken = mget (originalData d) ''sessionToken''
            in (if sessionToken \<noteq> GoNil then None else None)))"

definition runBeforeTrigger :: "rest_env \<Rightarrow> Destroy \<Rightarrow> err option \<times> call list" where
  "runBeforeTrigger env d =
     (let discarded = RunTrigger env TypeBeforeDelete (className d) (auth d) None (originalData d)
      in (None, [CallRunTrigger TypeBeforeDelete (className d) (auth d) None (originalData d)]))"

definition handleUserRoles :: "rest_env \<Rightarrow> Destroy \<Rightarrow> (err option \<times> Destroy) outcome \<times> call list" where
  "handleUserRoles env d =
     (case auth d of
        None \<Rightarrow> (Panicked NilDereference, [])
      | Some a \<Rightarrow>
          (if IsMaster a = False
           then (let (roles, discarded) = GetUserRoles env a
                 in (Returned (None, d\<lparr>auth := Some (a\<lparr>UserRoles := roles\<rparr>)\<rparr>), [CallGetUserRoles a]))
           else (Returned (None, d), [])))"

text \<open>The \<^verbatim>\<open>acl\<close> option of \<^verbatim>\<open>runDestroy\<close>; the type assertion on the user's id may panic.\<close>

definition destroyACL :: "rest_Auth \<Rightarrow> (string list) outcome" where
  "destroyACL a =
     (case User a of
        None \<Rightarrow> Returned [''*'']
      | Some u \<Rightarrow>
          (case assertString (mget (Some u) ''objectId'') of
             Panicked p \<Rightarrow> Panicked p
           | Returned uid \<Rightarrow> Returned (([''*''] @ [uid]) @ UserRoles a)))"

definition runDestroy :: "rest_env \<Rightarrow> Destroy \<Rightarrow> (err option) outcome \<times> call list" where
  "runDestroy env d =
     (case auth d of
        None \<Rightarrow> (Panicked NilDereference, [])
      | Some a \<Rightarrow>
          (if IsMaster a = False
           then (case destroyACL a of
                   Panicked p \<Rightarrow> (Panicked p, [])
                 | Returned acl \<Rightarrow>
                     (let options = mput ''acl'' (StrSlice acl) [];
                          discarded = orm_Destroy env (className d) (query d) options
                      in (Returned None, [CallOrmDestroy (className d) (query d) options])))
           else (let options = [];
                     discarded = orm_Destroy env (className d) (query d) options
                 in (Returned None, [CallOrmDestroy (className d) (query d) options]))))"

definition runAfterTrigger :: "rest_env \<Rightarrow> Destroy \<Rightarrow> err option \<times> call list" where
  "runAfterTrigger env d =
     (let discarded = RunTrigger env TypeAfterDelete (className d) (auth d) None (originalData d)
      in (None, [CallRunTrigger TypeAfterDelete (className d) (auth d) None (originalData d)]))"

text \<open>
  \<^verbatim>\<open>Execute\<close> runs the five steps and drops each step's result; its own result is the nil
  map. A panic in \<^verbatim>\<open>handleUserRoles\<close> or in \<^verbatim>\<open>runDestroy\<close> ends it there.
\<close>

definition Execute :: "rest_env \<Rightarrow> Destroy \<Rightarrow> (gmap option) outcome \<times> call list" where
  "Execute env d =
     (let e1 = handleSession d;
          (e2, t2) = runBeforeTrigger env d;
          (r3, t3) = handleUserRoles env d
      in (case r3 of
            Panicked p \<Rightarrow> (Panicked p, t2 @ t3)
          | Returned (e3, d3) \<Rightarrow>
              (let (r4, t4) = runDestroy env d3
               in (case r4 of
                     Panicked p \<Rightarrow> (Panicked p, t2 @ t3 @ t4)
                   | Returned e4 \<Rightarrow>
                       (let (e5, t5) = runAfterTrigger env d3
                        in (Returned None, t2 @ t3 @ t4 @ t5))))))"

text \<open>The deletes that reached the Store.\<close>

fun isDestroyCall :: "call \<Rightarrow> bool" where
  "isDestroyCall (CallOrmDestroy c q opts) = True"
| "isDestroyCall other = False"

definition storeDeletes :: "(gmap option) outcome \<times> call list \<Rightarrow> call list" where
  "storeDeletes r = filter isDestroyCall (snd r)"

section \<open>The classes controller (controllers/classes.go)\<close>

subsection \<open>Strings\<close>

definition strings_HasPrefix :: "string \<Rightarrow> string \<Rightarrow> bool" where
  "strings_HasPrefix s pre = (take (length pre) s = pre)"

definition strings_HasSuffix :: "string \<Rightarrow> string \<Rightarrow> bool" where
  "strings_HasSuffix s suf = (length suf \<le> length s \<and> drop (length s - length suf) s = suf)"

text \<open>\<^verbatim>\<open>strings.Split(s, sep)\<close> for a separator of one byte: one piece more than separators.\<close>

fun strings_Split :: "string \<Rightarrow> char \<Rightarrow> string list" where
  "strings_Split [] sep = [[]]"
| "strings_Split (x # xs) sep =
     (if x = sep then [] # strings_Split xs sep
      else (case strings_Split xs sep of
              [] \<Rightarrow> [[x]]
            | piece # pieces \<Rightarrow> (x # piece) # pieces))"

text \<open>A \<^verbatim>\<open>map[string]string\<close> read: a missing key reads as the empty string.\<close>

definition sget :: "(string \<times> string) list option \<Rightarrow> string \<Rightarrow> string" where
  "sget m k = (case m of None \<Rightarrow> []
               | Some kvs \<Rightarrow> (case map_of kvs k of None \<Rightarrow> [] | Some v \<Rightarrow> v))"

subsection \<open>State of a request\<close>

record RequestInfo =
  AppID :: string
  MasterKey :: string
  ClientKey :: string
  SessionToken :: string
  InstallationID :: string
  ClientVersion :: string
  ClientSDK :: "(string \<times> string) list option"

text \<open>\<^verbatim>\<open>config.TConfig\<close>, the fields the sources read.\<close>

record Config =
  TConfig_AppID :: string
  TConfig_MasterKey :: string
  TConfig_ClientKey :: string
  AccountLockoutThreshold :: int
  AccountLockoutDuration :: int

text \<open>
  What a handler stores in \<^verbatim>\<open>o.Data["json"]\<close>: the map built by \<^verbatim>\<open>errs.ErrorMessageToMap\<close> or
  by \<^verbatim>\<open>errs.ErrorToMap\<close> (both kept symbolic), a map, or any other value.
\<close>

datatype payload =
    ErrorMessageToMap errcode string
  | ErrorToMap err
  | JSONMap "gmap option"
  | JSONValue gval

text \<open>
  The controller with the parts of the beego context it reads and writes: the request
  headers, body, URL, route and query parameters on the way in; status, response headers,
  \<^verbatim>\<open>Data["json"]\<close> and whether \<^verbatim>\<open>ServeJSON\<close> ran on the way out.
\<close>

record ClassesController =
  Header :: "string \<Rightarrow> string"
  RequestBody :: "string option"
  URL :: string
  Param :: "string \<Rightarrow> string"
  GetString :: "string \<Rightarrow> string"
  Info :: "RequestInfo option"
  Auth :: "rest_Auth option"
  JSONBody :: "gmap option"
  RawBody :: "string option"
  ClassName :: string
  ObjectID :: string
  Status :: "int option"
  OutputHeader :: "(string \<times> string) list"
  DataJSON :: "payload option"
  Served :: bool

text \<open>
  The library functions and the functions of package \<^verbatim>\<open>rest\<close> that the controller calls
  are parameters. \<^verbatim>\<open>json.Unmarshal\<close> into a \<^verbatim>\<open>types.M\<close> answers an error (\<open>None\<close>) or the
  map, which is the nil map for the document \<^verbatim>\<open>null\<close>.
\<close>

type_synonym sdk = "(string \<times> string) list option"

record ctl_env =
  json_Unmarshal :: "string \<Rightarrow> (gmap option) option"
  base64_DecodeString :: "string \<Rightarrow> string option"
  strings_ToLower :: "string \<Rightarrow> string"
  strconv_Atoi :: "string \<Rightarrow> int option"
  client_FromString :: "string \<Rightarrow> sdk"
  GetAuthForSessionToken :: "string \<Rightarrow> string \<Rightarrow> rest_Auth option \<times> err option"
  rest_Create :: "rest_Auth option \<Rightarrow> string \<Rightarrow> gmap option \<Rightarrow> sdk \<Rightarrow> gmap option \<times> err option"
  rest_Get :: "rest_Auth option \<Rightarrow> string \<Rightarrow> string \<Rightarrow> gmap \<Rightarrow> sdk \<Rightarrow> gmap option \<times> err option"
  rest_Update :: "rest_Auth option \<Rightarrow> string \<Rightarrow> string \<Rightarrow> gmap option \<Rightarrow> sdk \<Rightarrow> gmap option \<times> err option"
  rest_Find :: "rest_Auth option \<Rightarrow> string \<Rightarrow> gmap option \<Rightarrow> gmap \<Rightarrow> sdk \<Rightarrow> gmap option \<times> err option"
  rest_Delete :: "rest_Auth option \<Rightarrow> string \<Rightarrow> string \<Rightarrow> sdk \<Rightarrow> err option"

text \<open>A step of \<^verbatim>\<open>Prepare\<close> panics, returns from \<^verbatim>\<open>Prepare\<close>, or falls through to the next.\<close>

datatype 'a flow = Panic panic | Return 'a | Next 'a

subsection \<open>Basic authentication\<close>

definition decodeBase64 :: "ctl_env \<Rightarrow> string \<Rightarrow> string" where
  "decodeBase64 env str =
     (case base64_DecodeString env str of None \<Rightarrow> [] | Some data \<Rightarrow> data)"

text \<open>
  \<^verbatim>\<open>httpAuth\<close>: nil unless the header is \<^verbatim>\<open>basic\<close> followed by the base64 of
  \<^verbatim>\<open>appId:key\<close>. The slice \<^verbatim>\<open>header[len(authPrefix):len(header)]\<close> is taken of the header
  as sent, the prefix test of its lower-case form.
\<close>

definition httpAuth :: "ctl_env \<Rightarrow> string \<Rightarrow> ((string \<times> string) list option) outcome" where
  "httpAuth env authorization =
     (if authorization = [] then Returned None
      else (let header = authorization;
                authPrefix = ''basic '';
                match = strings_HasPrefix (strings_ToLower env header) authPrefix
            in if match
               then (if length header < length authPrefix then Panicked SliceBounds
                     else (let encodedAuth = drop (length authPrefix) header;
                               credentials = strings_Split (decodeBase64 env encodedAuth) CHR '':''
                           in if length credentials = 2
                              then (let appID = credentials ! 0;
                                        key = credentials ! 1;
                                        jsKeyPrefix = ''javascript-key='';
                                        matchKey = strings_HasPrefix key jsKeyPrefix;
                                        javascriptKey = (if matchKey then drop (length jsKeyPrefix) key else []);
                                        masterKey = (if matchKey then [] else key)
                                    in Returned (Some [(''appId'', appID),
                                                       (''masterKey'', masterKey),
                                                       (''javascriptKey'', javascriptKey)]))
                              else Returned None))
               else Returned None))"

subsection \<open>Prepare\<close>

text \<open>
  \<^verbatim>\<open>Prepare\<close> is one function in the source; here each of its blocks is a step, and
  \<open>Prepare\<close> chains them. The local \<^verbatim>\<open>info\<close> travels beside the controller until it is
  stored in \<^verbatim>\<open>o.Info\<close>; from then on a write to \<^verbatim>\<open>info\<close> is a write to \<^verbatim>\<open>o.Info\<close>, since both
  name the same struct.
\<close>

text \<open>Lines 54-71: the keys of the request headers, then of the basic authentication.\<close>

definition Prepare_headers :: "ctl_env \<Rightarrow> ClassesController \<Rightarrow> RequestInfo outcome" where
  "Prepare_headers env c =
     (let info = \<lparr>AppID = Header c ''X-Parse-Application-Id'',
                  MasterKey = Header c ''X-Parse-Master-Key'',
                  ClientKey = Header c ''X-Parse-Client-Key'',
                  SessionToken = Header c ''X-Parse-Session-Token'',
                  InstallationID = Header c ''X-Parse-Installation-Id'',
                  ClientVersion = Header c ''X-Parse-Client-Version'',
                  ClientSDK = None\<rparr>
      in (case httpAuth env (Header c ''authorization'') of
            Panicked p \<Rightarrow> Panicked p
          | Returned None \<Rightarrow> Returned info
          | Returned (Some basicAuth) \<Rightarrow>
              (let info1 = info\<lparr>AppID := sget (Some basicAuth) ''appId''\<rparr>;
                   info2 = (if sget (Some basicAuth) ''masterKey'' \<noteq> []
                            then info1\<lparr>MasterKey := sget (Some basicAuth) ''masterKey''\<rparr>
                            else info1);
                   info3 = (if sget (Some basicAuth) ''javascriptKey'' \<noteq> []
                            then info2\<lparr>ClientKey := sget (Some basicAuth) ''javascriptKey''\<rparr>
                            else info2)
               in Returned info3)))"

text \<open>Lines 73-96: the body, as JSON when it parses.\<close>

definition Prepare_body :: "ctl_env \<Rightarrow> ClassesController \<Rightarrow> ClassesController flow" where
  "Prepare_body env c =
     (case RequestBody c of
        None \<Rightarrow> Next c
      | Some body \<Rightarrow>
          (let contentType = Header c ''Content-type''
           in if strings_HasPrefix contentType ''application/json''
              then (case json_Unmarshal env body of
                      None \<Rightarrow> Return (c\<lparr>DataJSON := Some (ErrorMessageToMap InvalidJSON ''invalid JSON''),
                                         Served := True\<rparr>)
                    | Some object \<Rightarrow> Next (c\<lparr>JSONBody := object\<rparr>))
              else (case json_Unmarshal env body of
                      None \<Rightarrow> Next (c\<lparr>RawBody := Some body\<rparr>)
                    | Some object \<Rightarrow> Next (c\<lparr>JSONBody := object\<rparr>))))"

text \<open>Lines 98-104.\<close>

definition Prepare_noBody :: "ClassesController \<Rightarrow> ClassesController" where
  "Prepare_noBody c =
     (if JSONBody c \<noteq> None
      then c\<lparr>JSONBody := mdelete ''_RevocableSession'' (mdelete ''_noBody'' (JSONBody c))\<rparr>
      else c)"

text \<open>
  Lines 114-133: a key of the body that is not nil is asserted to be a string, stored
  and deleted from the body.
\<close>

definition take_ClientKey :: "RequestInfo \<times> ClassesController \<Rightarrow> (RequestInfo \<times> ClassesController) outcome" where
  "take_ClientKey s =
     (let (info, c) = s
      in if mget (JSONBody c) ''_ClientKey'' \<noteq> GoNil
         then (case assertString (mget (JSONBody c) ''_ClientKey'') of
                 Panicked p \<Rightarrow> Panicked p
               | Returned v \<Rightarrow> Returned (info\<lparr>ClientKey := v\<rparr>,
                                         c\<lparr>JSONBody := mdelete ''_ClientKey'' (JSONBody c)\<rparr>))
         else Returned s)"

definition take_InstallationId :: "RequestInfo \<times> ClassesController \<Rightarrow> (RequestInfo \<times> ClassesController) outcome" where
  "take_InstallationId s =
     (let (info, c) = s
      in if mget (JSONBody c) ''_InstallationId'' \<noteq> GoNil
         then (case assertString (mget (JSONBody c) ''_InstallationId'') of
                 Panicked p \<Rightarrow> Panicked p
               | Returned v \<Rightarrow> Returned (info\<lparr>InstallationID := v\<rparr>,
                                         c\<lparr>JSONBody := mdelete ''_InstallationId'' (JSONBody c)\<rparr>))
         else Returned s)"

definition take_SessionToken :: "RequestInfo \<times> ClassesController \<Rightarrow> (RequestInfo \<times> ClassesController) outcome" where
  "take_SessionToken s =
     (let (info, c) = s
      in if mget (JSONBody c) ''_SessionToken'' \<noteq> GoNil
         then (case assertString (mget (JSONBody c) ''_SessionToken'') of
                 Panicked p \<Rightarrow> Panicked p
               | Returned v \<Rightarrow> Returned (info\<lparr>SessionToken := v\<rparr>,
                                         c\<lparr>JSONBody := mdelete ''_SessionToken'' (JSONBody c)\<rparr>))
         else Returned s)"

definition take_MasterKey :: "RequestInfo \<times> ClassesController \<Rightarrow> (RequestInfo \<times> ClassesController) outcome" where
  "take_MasterKey s =
     (let (info, c) = s
      in if mget (JSONBody c) ''_MasterKey'' \<noteq> GoNil
         then (case assertString (mget (JSONBody c) ''_MasterKey'') of
                 Panicked p \<Rightarrow> Panicked p
               | Returned v \<Rightarrow> Returned (info\<lparr>MasterKey := v\<rparr>,
                                         c\<lparr>JSONBody := mdelete ''_MasterKey'' (JSONBody c)\<rparr>))
         else Returned s)"

definition take_ContentType :: "RequestInfo \<times> ClassesController \<Rightarrow> (RequestInfo \<times> ClassesController) outcome" where
  "take_ContentType s =
     (let (info, c) = s
      in if mget (JSONBody c) ''_ContentType'' \<noteq> GoNil
         then (case assertString (mget (JSONBody c) ''_ContentType'') of
                 Panicked p \<Rightarrow> Panicked p
               | Returned v \<Rightarrow> Returned (info,
                                         c\<lparr>Header := (Header c)(''Content-type'' := v),
                                           JSONBody := mdelete ''_ContentType'' (JSONBody c)\<rparr>))
         else Returned s)"

definition andThen :: "'a outcome \<Rightarrow> ('a \<Rightarrow> 'b outcome) \<Rightarrow> 'b outcome" where
  "andThen r f = (case r of Panicked p \<Rightarrow> Panicked p | Returned x \<Rightarrow> f x)"

text \<open>Lines 106-141: with no application id so far, the keys are looked for in the body.\<close>

definition Prepare_bodyKeys :: "RequestInfo \<times> ClassesController \<Rightarrow> (RequestInfo \<times> ClassesController) flow" where
  "Prepare_bodyKeys s =
     (let (info, c0) = s
      in if AppID info = []
         then (let c = (if JSONBody c0 \<noteq> None
                        then c0\<lparr>JSONBody := mdelete ''_RevocableSession'' (JSONBody c0)\<rparr>
                        else c0)
               in if JSONBody c \<noteq> None \<and> mget (JSONBody c) ''_ApplicationId'' \<noteq> GoNil
                  then (case andThen (assertString (mget (JSONBody c) ''_ApplicationId''))
                               (\<lambda>v. andThen (take_ClientKey (info\<lparr>AppID := v\<rparr>,
                                                c\<lparr>JSONBody := mdelete ''_ApplicationId'' (JSONBody c)\<rparr>))
                               (\<lambda>s1. andThen (take_InstallationId s1)
                               (\<lambda>s2. andThen (take_SessionToken s2)
                               (\<lambda>s3. andThen (take_MasterKey s3)
                               take_ContentType)))) of
                          Panicked p \<Rightarrow> Panic p
                        | Returned s' \<Rightarrow> Next s')
                  else Return (info, c\<lparr>DataJSON := Some (ErrorMessageToMap (Code 403) ''unauthorized''),
                                        Status := Some 403,
                                        Served := True\<rparr>))
         else Next s)"

text \<open>Lines 143-155: the client SDK, an uploaded file in \<^verbatim>\<open>base64\<close>, and \<^verbatim>\<open>o.Info = info\<close>.\<close>

definition Prepare_clientSDK :: "ctl_env \<Rightarrow> RequestInfo \<Rightarrow> RequestInfo" where
  "Prepare_clientSDK env info =
     (if ClientVersion info \<noteq> []
      then info\<lparr>ClientSDK := client_FromString env (ClientVersion info)\<rparr>
      else info)"

definition Prepare_base64 :: "ctl_env \<Rightarrow> ClassesController \<Rightarrow> ClassesController outcome" where
  "Prepare_base64 env c =
     (if JSONBody c \<noteq> None \<and> mget (JSONBody c) ''base64'' \<noteq> GoNil
      then (case assertString (mget (JSONBody c) ''base64'') of
              Panicked p \<Rightarrow> Panicked p
            | Returned str \<Rightarrow>
                (case base64_DecodeString env str of
                   None \<Rightarrow> Returned c
                 | Some data \<Rightarrow> Returned (c\<lparr>RawBody := Some data\<rparr>)))
      else Returned c)"

text \<open>
  Lines 157-190: the request's keys against the configuration, then the session. The
  argument is the controller with \<^verbatim>\<open>o.Info\<close> set to \<open>info\<close>.
\<close>

definition Prepare_credentials :: "ctl_env \<Rightarrow> Config \<Rightarrow> RequestInfo \<Rightarrow> ClassesController \<Rightarrow> ClassesController" where
  "Prepare_credentials env cfg info c =
     (if AppID info \<noteq> TConfig_AppID cfg
      then c\<lparr>DataJSON := Some (ErrorMessageToMap (Code 403) ''unauthorized''),
             Status := Some 403,
             Served := True\<rparr>
      else if MasterKey info = TConfig_MasterKey cfg
      then c\<lparr>Auth := Some \<lparr>IsMaster = True, Auth_InstallationID = InstallationID info,
                             User = None, UserRoles = []\<rparr>\<rparr>
      else if ClientKey info \<noteq> TConfig_ClientKey cfg
      then c\<lparr>DataJSON := Some (ErrorMessageToMap (Code 403) ''unauthorized''),
             Status := Some 403,
             Served := True\<rparr>
      else (let url = URL c;
                info1 = (if strings_HasSuffix url ''/login/'' then info\<lparr>SessionToken := []\<rparr> else info);
                c1 = c\<lparr>Info := Some info1\<rparr>
            in if SessionToken info1 = []
               then c1\<lparr>Auth := Some \<lparr>IsMaster = False, Auth_InstallationID = InstallationID info1,
                                       User = None, UserRoles = []\<rparr>\<rparr>
               else (let (a, err) = GetAuthForSessionToken env (SessionToken info1) (InstallationID info1);
                         c2 = c1\<lparr>Auth := a\<rparr>
                     in (case err of
                           Some e \<Rightarrow> c2\<lparr>DataJSON := Some (ErrorToMap e), Served := True\<rparr>
                         | None \<Rightarrow> c2))))"

definition Prepare :: "ctl_env \<Rightarrow> Config \<Rightarrow> ClassesController \<Rightarrow> ClassesController outcome" where
  "Prepare env cfg c =
     (case Prepare_headers env c of
        Panicked p \<Rightarrow> Panicked p
      | Returned info \<Rightarrow>
          (case Prepare_body env c of
             Panic p \<Rightarrow> Panicked p
           | Return c' \<Rightarrow> Returned c'
           | Next c1 \<Rightarrow>
               (case Prepare_bodyKeys (info, Prepare_noBody c1) of
                  Panic p \<Rightarrow> Panicked p
                | Return s \<Rightarrow> Returned (snd s)
                | Next s \<Rightarrow>
                    (let info2 = Prepare_clientSDK env (fst s)
                     in (case Prepare_base64 env (snd s) of
                           Panicked p \<Rightarrow> Panicked p
                         | Returned c3 \<Rightarrow>
                             Returned (Prepare_credentials env cfg info2 (c3\<lparr>Info := Some info2\<rparr>)))))))"

subsection \<open>The handlers\<close>

text \<open>
  Modelled from the spec: package \<^verbatim>\<open>utils\<close> is missing from the sources. The spec speaks of
  the results of a Find as a list of objects, so \<^verbatim>\<open>utils.A\<close> and \<^verbatim>\<open>utils.M\<close> are the checked
  conversions to \<^verbatim>\<open>[]interface{}\<close> and to a map (nil when the value is of another type;
  the same slice and the same map, not copies), and \<^verbatim>\<open>utils.HasResults\<close> holds of a
  response whose \<^verbatim>\<open>results\<close> is a list that is not empty.
\<close>

definition utils_A :: "gval \<Rightarrow> gval list option" where
  "utils_A v = (case v of Slice xs \<Rightarrow> Some xs | _ \<Rightarrow> None)"

definition utils_M :: "gval \<Rightarrow> gmap option" where
  "utils_M v = (case v of Map m \<Rightarrow> Some m | _ \<Rightarrow> None)"

text \<open>The elements and \<^verbatim>\<open>len\<close> of a slice that may be nil.\<close>

definition elems :: "'a list option \<Rightarrow> 'a list" where
  "elems xs = (case xs of None \<Rightarrow> [] | Some ys \<Rightarrow> ys)"

definition len :: "'a list option \<Rightarrow> nat" where
  "len xs = length (elems xs)"

definition utils_HasResults :: "gmap option \<Rightarrow> bool" where
  "utils_HasResults response =
     (if response = None \<or> mget response ''results'' = GoNil
         \<or> utils_A (mget response ''results'') = None
         \<or> len (utils_A (mget response ''results'')) = 0
      then False else True)"

text \<open>The calls into package \<^verbatim>\<open>rest\<close>, with the arguments they were given.\<close>

datatype rest_call =
    CallCreate "rest_Auth option" string "gmap option" sdk
  | CallGet "rest_Auth option" string string gmap sdk
  | CallUpdate "rest_Auth option" string string "gmap option" sdk
  | CallFind "rest_Auth option" string "gmap option" gmap sdk
  | CallDelete "rest_Auth option" string string sdk

definition setClassName :: "ClassesController \<Rightarrow> ClassesController" where
  "setClassName c = (if ClassName c = [] then c\<lparr>ClassName := Param c '':className''\<rparr> else c)"

definition setObjectID :: "ClassesController \<Rightarrow> ClassesController" where
  "setObjectID c = (if ObjectID c = [] then c\<lparr>ObjectID := Param c '':objectId''\<rparr> else c)"

definition serve :: "payload \<Rightarrow> ClassesController \<Rightarrow> ClassesController" where
  "serve p c = c\<lparr>DataJSON := Some p, Served := True\<rparr>"

definition HandleCreate :: "ctl_env \<Rightarrow> ClassesController \<Rightarrow> ClassesController outcome \<times> rest_call list" where
  "HandleCreate env c0 =
     (let c = setClassName c0
      in if JSONBody c = None
         then (Returned (serve (ErrorMessageToMap InvalidJSON ''request body is empty'') c), [])
         else (case Info c of
                 None \<Rightarrow> (Panicked NilDereference, [])
               | Some info \<Rightarrow>
                   (let (result, err) = rest_Create env (Auth c) (ClassName c) (JSONBody c) (ClientSDK info);
                        calls = [CallCreate (Auth c) (ClassName c) (JSONBody c) (ClientSDK info)]
                    in (case err of
                          Some e \<Rightarrow> (Returned (serve (ErrorToMap e) c), calls)
                        | None \<Rightarrow>
                            (case assertString (mget result ''location'') of
                               Panicked p \<Rightarrow> (Panicked p, calls)
                             | Returned location \<Rightarrow>
                                 (Returned (serve (JSONValue (mget result ''response''))
                                    (c\<lparr>Status := Some 201,
                                       OutputHeader := OutputHeader c @ [(''location'', location)]\<rparr>)),
                                  calls))))))"

text \<open>
  Lines 299-305 of \<^verbatim>\<open>HandleGet\<close>: on class \<^verbatim>\<open>_User\<close> the session token of the result is deleted
  and, when the result is the requesting user, set to the token of the request.
\<close>

definition Get_sessionToken :: "ClassesController \<Rightarrow> RequestInfo \<Rightarrow> gmap option \<Rightarrow> (gmap option) outcome" where
  "Get_sessionToken c info result0 =
     (if ClassName c = ''_User''
      then (let result = mdelete ''sessionToken'' result0
            in (case Auth c of
                  None \<Rightarrow> Panicked NilDereference
                | Some a \<Rightarrow>
                    (if User a \<noteq> None
                     then andThen (assertString (mget result ''objectId''))
                            (\<lambda>rid. andThen (assertString (mget (User a) ''objectId''))
                            (\<lambda>uid. if rid = uid
                                    then (case result of
                                            None \<Rightarrow> Panicked NilMapWrite
                                          | Some m \<Rightarrow> Returned (Some (mput ''sessionToken'' (Str (SessionToken info)) m)))
                                    else Returned result))
                     else Returned result)))
      else Returned result0)"

definition HandleGet :: "ctl_env \<Rightarrow> ClassesController \<Rightarrow> ClassesController outcome \<times> rest_call list" where
  "HandleGet env c0 =
     (let c = setObjectID (setClassName c0);
          options0 = [];
          options1 = (if GetString c ''keys'' \<noteq> [] then mput ''keys'' (Str (GetString c ''keys'')) options0
                      else options0);
          options = (if GetString c ''include'' \<noteq> [] then mput ''include'' (Str (GetString c ''include'')) options1
                     else options1)
      in (case Info c of
            None \<Rightarrow> (Panicked NilDereference, [])
          | Some info \<Rightarrow>
              (let (response, err) = rest_Get env (Auth c) (ClassName c) (ObjectID c) options (ClientSDK info);
                   calls = [CallGet (Auth c) (ClassName c) (ObjectID c) options (ClientSDK info)]
               in (case err of
                     Some e \<Rightarrow> (Returned (serve (ErrorToMap e) c), calls)
                   | None \<Rightarrow>
                       (let results = utils_A (mget response ''results'')
                        in if results = None \<and> len results = 0
                           then (Returned (serve (ErrorMessageToMap ObjectNotFound ''Object not found.'') c), calls)
                           else (case elems results of
                                   [] \<Rightarrow> (Panicked IndexOutOfRange, calls)
                                 | first # rest \<Rightarrow>
                                     (case Get_sessionToken c info (utils_M first) of
                                        Panicked p \<Rightarrow> (Panicked p, calls)
                                      | Returned result \<Rightarrow>
                                          (Returned (serve (JSONMap result) c), calls))))))))"

definition HandleUpdate :: "ctl_env \<Rightarrow> ClassesController \<Rightarrow> ClassesController outcome \<times> rest_call list" where
  "HandleUpdate env c0 =
     (let c = setObjectID (setClassName c0)
      in if JSONBody c = None
         then (Returned (serve (ErrorMessageToMap InvalidJSON ''request body is empty'') c), [])
         else (case Info c of
                 None \<Rightarrow> (Panicked NilDereference, [])
               | Some info \<Rightarrow>
                   (let (result, err) = rest_Update env (Auth c) (ClassName c) (ObjectID c) (JSONBody c) (ClientSDK info);
                        calls = [CallUpdate (Auth c) (ClassName c) (ObjectID c) (JSONBody c) (ClientSDK info)]
                    in (case err of
                          Some e \<Rightarrow> (Returned (serve (ErrorToMap e) c), calls)
                        | None \<Rightarrow> (Returned (serve (JSONValue (mget result ''response'')) c), calls)))))"

text \<open>
  Lines 402-410 of \<^verbatim>\<open>HandleFind\<close>: the loop body, on one element of the results. The
  assignment writes into the map that the response holds.
\<close>

definition Find_sessionToken :: "RequestInfo \<Rightarrow> gval \<Rightarrow> gval" where
  "Find_sessionToken info v =
     (case utils_M v of
        None \<Rightarrow> v
      | Some result \<Rightarrow>
          (if mget (Some result) ''sessionToken'' \<noteq> GoNil \<and> SessionToken info \<noteq> []
           then Map (mput ''sessionToken'' (Str (SessionToken info)) result)
           else v))"

definition Find_results :: "RequestInfo \<Rightarrow> gmap option \<Rightarrow> gmap option" where
  "Find_results info response =
     (if utils_HasResults response
      then (case utils_A (mget response ''results'') of
              None \<Rightarrow> response
            | Some results \<Rightarrow>
                map_option (mput ''results'' (Slice (map (Find_sessionToken info) results))) response)
      else response)"

text \<open>Lines 349-384: the options of a Find, from the query parameters.\<close>

definition Find_options :: "ctl_env \<Rightarrow> ClassesController \<Rightarrow> string + gmap" where
  "Find_options env c =
     (let options0 = []
      in (case (if GetString c ''skip'' \<noteq> []
                then (case strconv_Atoi env (GetString c ''skip'') of
                        Some i \<Rightarrow> Inr (mput ''skip'' (GoInt i) options0)
                      | None \<Rightarrow> Inl ''skip should be int'')
                else Inr options0) of
            Inl msg \<Rightarrow> Inl msg
          | Inr options1 \<Rightarrow>
              (case (if GetString c ''limit'' \<noteq> []
                     then (case strconv_Atoi env (GetString c ''limit'') of
                             Some i \<Rightarrow> Inr (mput ''limit'' (GoInt i) options1)
                           | None \<Rightarrow> Inl ''limit should be int'')
                     else Inr (mput ''limit'' (GoInt 100) options1)) of
                 Inl msg \<Rightarrow> Inl msg
               | Inr options2 \<Rightarrow>
                   (let options3 = (if GetString c ''order'' \<noteq> []
                                    then mput ''order'' (Str (GetString c ''order'')) options2 else options2);
                        options4 = (if GetString c ''count'' \<noteq> []
                                    then mput ''count'' (Bool True) options3 else options3);
                        options5 = (if GetString c ''keys'' \<noteq> []
                                    then mput ''keys'' (Str (GetString c ''keys'')) options4 else options4);
                        options6 = (if GetString c ''include'' \<noteq> []
                                    then mput ''include'' (Str (GetString c ''include'')) options5 else options5);
                        options7 = (if GetString c ''redirectClassNameForKey'' \<noteq> []
                                    then mput ''redirectClassNameForKey''
                                           (Str (GetString c ''redirectClassNameForKey'')) options6
                                    else options6)
                    in Inr options7))))"

definition HandleFind :: "ctl_env \<Rightarrow> ClassesController \<Rightarrow> ClassesController outcome \<times> rest_call list" where
  "HandleFind env c0 =
     (let c = setClassName c0
      in (case Find_options env c of
            Inl msg \<Rightarrow> (Returned (serve (ErrorMessageToMap InvalidQuery msg) c), [])
          | Inr options \<Rightarrow>
              (case (if GetString c ''where'' \<noteq> []
                     then json_Unmarshal env (GetString c ''where'')
                     else Some (Some [])) of
                 None \<Rightarrow> (Returned (serve (ErrorMessageToMap InvalidJSON ''where should be valid json'') c), [])
               | Some where' \<Rightarrow>
                   (case Info c of
                      None \<Rightarrow> (Panicked NilDereference, [])
                    | Some info \<Rightarrow>
                        (let (response, err) = rest_Find env (Auth c) (ClassName c) where' options (ClientSDK info);
                             calls = [CallFind (Auth c) (ClassName c) where' options (ClientSDK info)]
                         in (case err of
                               Some e \<Rightarrow> (Returned (serve (ErrorToMap e) c), calls)
                             | None \<Rightarrow> (Returned (serve (JSONMap (Find_results info response)) c), calls)))))))"

definition HandleDelete :: "ctl_env \<Rightarrow> ClassesController \<Rightarrow> ClassesController outcome \<times> rest_call list" where
  "HandleDelete env c0 =
     (let c = setObjectID (setClassName c0)
      in (case Info c of
            None \<Rightarrow> (Panicked NilDereference, [])
          | Some info \<Rightarrow>
              (let err = rest_Delete env (Auth c) (ClassName c) (ObjectID c) (ClientSDK info);
                   calls = [CallDelete (Auth c) (ClassName c) (ObjectID c) (ClientSDK info)]
               in (case err of
                     Some e \<Rightarrow> (Returned (serve (ErrorToMap e) c), calls)
                   | None \<Rightarrow> (Returned (serve (JSONMap (Some [])) c), calls)))))"

subsection \<open>A request\<close>

text \<open>
  One request: \<^verbatim>\<open>Prepare\<close>, then the handler of the route, unless \<^verbatim>\<open>Prepare\<close> has served the
  response.
\<close>

definition serveRequest ::
  "(ctl_env \<Rightarrow> ClassesController \<Rightarrow> ClassesController outcome \<times> rest_call list)
     \<Rightarrow> ctl_env \<Rightarrow> Config \<Rightarrow> ClassesController \<Rightarrow> ClassesController outcome \<times> rest_call list" where
  "serveRequest handler env cfg c =
     (case Prepare env cfg c of
        Panicked p \<Rightarrow> (Panicked p, [])
      | Returned c' \<Rightarrow> (if Served c' then (Returned c', []) else handler env c'))"

section \<open>Account lockout\<close>

text \<open>
  Only the tests of \<^verbatim>\<open>AccountLockout\<close> are among the sources. The lockout record lives on
  the user object: the user name, the counter \<^verbatim>\<open>_failed_login_count\<close> (which may not be set
  yet) and the time \<^verbatim>\<open>_account_lockout_expires_at\<close> (optional). The Store's class \<^verbatim>\<open>_User\<close> is
  the list of these objects. Times count milliseconds.
\<close>

record UserObject =
  username :: string
  failed_login_count :: "int option"
  account_lockout_expires_at :: "int option"

definition time_Minute :: int where
  "time_Minute = 60000"

text \<open>\<^verbatim>\<open>strconv.Itoa\<close>.\<close>

fun digitsOf :: "nat \<Rightarrow> string" where
  "digitsOf n = (if n < 10 then [''0123456789'' ! n]
                 else digitsOf (n div 10) @ [''0123456789'' ! (n mod 10)])"

declare digitsOf.simps [simp del]

definition strconv_Itoa :: "int \<Rightarrow> string" where
  "strconv_Itoa i = (if i < 0 then CHR ''-'' # digitsOf (nat (- i)) else digitsOf (nat i))"

text \<open>
  Modelled from the spec: \<^verbatim>\<open>AccountLockout.notLocked\<close> is missing from the sources. It fails
  with \<^verbatim>\<open>ObjectNotFound\<close> when the Store holds a lockout record of the user with
  \<^verbatim>\<open>now < expires_at\<close> and \<^verbatim>\<open>failedCount >= threshold\<close>, and succeeds otherwise.
\<close>

definition isLockedRecord :: "Config \<Rightarrow> int \<Rightarrow> string \<Rightarrow> UserObject \<Rightarrow> bool" where
  "isLockedRecord cfg now u r =
     (username r = u
      \<and> (case account_lockout_expires_at r of None \<Rightarrow> False | Some t \<Rightarrow> now < t)
      \<and> (case failed_login_count r of None \<Rightarrow> False | Some n \<Rightarrow> AccountLockoutThreshold cfg \<le> n))"

definition lockedMessage :: "Config \<Rightarrow> string" where
  "lockedMessage cfg =
     ''Your account is locked due to multiple failed login attempts. Please try again after ''
       @ strconv_Itoa (AccountLockoutDuration cfg) @ '' minute(s)''"

definition notLocked :: "Config \<Rightarrow> int \<Rightarrow> string \<Rightarrow> UserObject list \<Rightarrow> err option" where
  "notLocked cfg now u users =
     (if length (filter (isLockedRecord cfg now u) users) > 0
      then Some (E ObjectNotFound (lockedMessage cfg))
      else None)"

text \<open>
  Modelled from the spec: \<^verbatim>\<open>isFailedLoginCountSet\<close>, \<^verbatim>\<open>setFailedLoginCount\<close>,
  \<^verbatim>\<open>incrementFailedLoginCount\<close>, \<^verbatim>\<open>setLockoutExpiration\<close> and \<^verbatim>\<open>handleFailedLoginAttempt\<close> are
  missing from the sources. On a failed password check the counter is initialised to 1
  when it is not set and incremented otherwise; if the count after that reaches the
  threshold, the expiry is set to \<^verbatim>\<open>now\<close> plus the lockout duration in minutes. Each is a
  write to the objects of the user in the Store.
\<close>

definition isFailedLoginCountSet :: "string \<Rightarrow> UserObject list \<Rightarrow> bool" where
  "isFailedLoginCountSet u users =
     (filter (\<lambda>r. username r = u \<and> failed_login_count r \<noteq> None) users \<noteq> [])"

definition setFailedLoginCount :: "int \<Rightarrow> string \<Rightarrow> UserObject list \<Rightarrow> UserObject list" where
  "setFailedLoginCount n u users =
     map (\<lambda>r. if username r = u then r\<lparr>failed_login_count := Some n\<rparr> else r) users"

definition incrementFailedLoginCount :: "string \<Rightarrow> UserObject list \<Rightarrow> UserObject list" where
  "incrementFailedLoginCount u users =
     map (\<lambda>r. if username r = u
               then r\<lparr>failed_login_count := Some (case failed_login_count r of None \<Rightarrow> 1 | Some n \<Rightarrow> n + 1)\<rparr>
               else r) users"

definition setLockoutExpiration :: "Config \<Rightarrow> int \<Rightarrow> string \<Rightarrow> UserObject list \<Rightarrow> UserObject list" where
  "setLockoutExpiration cfg now u users =
     map (\<lambda>r. if username r = u
                  \<and> (case failed_login_count r of None \<Rightarrow> False | Some n \<Rightarrow> AccountLockoutThreshold cfg \<le> n)
               then r\<lparr>account_lockout_expires_at := Some (now + AccountLockoutDuration cfg * time_Minute)\<rparr>
               else r) users"

definition handleFailedLoginAttempt :: "Config \<Rightarrow> int \<Rightarrow> string \<Rightarrow> UserObject list \<Rightarrow> UserObject list" where
  "handleFailedLoginAttempt cfg now u users =
     setLockoutExpiration cfg now u
       (if \<not> isFailedLoginCountSet u users
        then setFailedLoginCount 1 u users
        else incrementFailedLoginCount u users)"

section \<open>Examples\<close>

subsection \<open>Destroy\<close>

text \<open>
  A trigger dispatcher whose \<^verbatim>\<open>BeforeDelete\<close> hook refuses every delete, a caller with the
  master key and a signed-in user with one role.
\<close>

definition vetoEnv :: rest_env where
  "vetoEnv = \<lparr>RunTrigger = (\<lambda>t c a n od. if t = TypeBeforeDelete
                                           then Some (E (Code 141) ''delete refused'') else None),
              GetUserRoles = (\<lambda>a. ([''role:admin''], None)),
              orm_Destroy = (\<lambda>c q opts. None)\<rparr>"

definition failingEnv :: rest_env where
  "failingEnv = \<lparr>RunTrigger = (\<lambda>t c a n od. Some (E (Code 141) ''hook failed'')),
                 GetUserRoles = (\<lambda>a. ([], Some (E (Code 1) ''roles not resolved''))),
                 orm_Destroy = (\<lambda>c q opts. Some (E (Code 1) ''delete failed''))\<rparr>"

definition masterAuth :: rest_Auth where
  "masterAuth = \<lparr>IsMaster = True, Auth_InstallationID = [], User = None, UserRoles = []\<rparr>"

definition anonymousAuth :: rest_Auth where
  "anonymousAuth = \<lparr>IsMaster = False, Auth_InstallationID = [], User = None, UserRoles = []\<rparr>"

definition userAuth :: rest_Auth where
  "userAuth = \<lparr>IsMaster = False, Auth_InstallationID = [],
               User = Some [(''objectId'', Str ''u1'')], UserRoles = []\<rparr>"

definition lockedQuery :: "gmap option" where
  "lockedQuery = Some [(''objectId'', Str ''x1'')]"


subsection \<open>The classes controller\<close>


text \<open>What the caller of a handler receives: the panic, or the payload served.\<close>

definition response :: "ClassesController outcome \<times> rest_call list \<Rightarrow> (payload option) outcome" where
  "response r = (case fst r of Panicked p \<Rightarrow> Panicked p | Returned c \<Rightarrow> Returned (DataJSON c))"

text \<open>
  A configuration, two rows of class \<^verbatim>\<open>_User\<close> that carry a stored session token, and an
  environment: three request bodies that parse (every other body does not), one valid
  session token, a Store that answers a Find on \<^verbatim>\<open>_User\<close> with both rows and a Get with the
  row of that id, or with no row.
\<close>

definition exampleConfig :: Config where
  "exampleConfig = \<lparr>TConfig_AppID = ''app'', TConfig_MasterKey = ''master'', TConfig_ClientKey = ''client'',
                     AccountLockoutThreshold = 3, AccountLockoutDuration = 5\<rparr>"

definition joeRow :: gmap where
  "joeRow = [(''objectId'', Str ''u1''), (''username'', Str ''joe''), (''sessionToken'', Str ''r:stored1'')]"

definition annRow :: gmap where
  "annRow = [(''objectId'', Str ''u2''), (''username'', Str ''ann''), (''sessionToken'', Str ''r:stored2'')]"

definition exampleEnv :: ctl_env where
  "exampleEnv =
     \<lparr>json_Unmarshal = (\<lambda>b.
         if b = ''{score: 5, _ClientKey: other}''
         then Some (Some [(''score'', GoInt 5), (''_ClientKey'', Str ''other'')])
         else if b = ''{_ApplicationId: app, _ClientKey: client, _MasterKey: nope, score: 5}''
         then Some (Some [(''_ApplicationId'', Str ''app''), (''_ClientKey'', Str ''client''),
                          (''_MasterKey'', Str ''nope''), (''score'', GoInt 5)])
         else if b = ''{_ApplicationId: app, _ClientKey: null}''
         then Some (Some [(''_ApplicationId'', Str ''app''), (''_ClientKey'', GoNil)])
         else None),
      base64_DecodeString = (\<lambda>s. None),
      strings_ToLower = (\<lambda>s. s),
      strconv_Atoi = (\<lambda>s. None),
      client_FromString = (\<lambda>s. None),
      GetAuthForSessionToken = (\<lambda>token installationID.
         if token = ''r:now''
         then (Some \<lparr>IsMaster = False, Auth_InstallationID = installationID,
                      User = Some [(''objectId'', Str ''u1'')], UserRoles = []\<rparr>, None)
         else (None, Some (E (Code 209) ''invalid session token''))),
      rest_Create = (\<lambda>a cls body sdk.
         (Some [(''response'', Map [(''objectId'', Str ''x1'')]), (''location'', Str ''/classes/x1'')], None)),
      rest_Get = (\<lambda>a cls oid opts sdk.
         if oid = ''u1'' then (Some [(''results'', Slice [Map joeRow])], None)
         else if oid = ''u2'' then (Some [(''results'', Slice [Map annRow])], None)
         else (Some [(''results'', Slice [])], None)),
      rest_Update = (\<lambda>a cls oid body sdk. (Some [(''response'', Map [])], None)),
      rest_Find = (\<lambda>a cls wh opts sdk. (Some [(''results'', Slice [Map joeRow, Map annRow])], None)),
      rest_Delete = (\<lambda>a cls oid sdk. None)\<rparr>"

text \<open>
  A controller before \<^verbatim>\<open>Prepare\<close>, for a request on class \<^verbatim>\<open>Game\<close> with these headers, body
  and URL.
\<close>

definition request :: "(string \<times> string) list \<Rightarrow> string option \<Rightarrow> string \<Rightarrow> ClassesController" where
  "request headers body url =
     \<lparr>Header = (\<lambda>k. case map_of headers k of None \<Rightarrow> [] | Some v \<Rightarrow> v),
      RequestBody = body,
      URL = url,
      Param = (\<lambda>k. if k = '':className'' then ''Game'' else []),
      GetString = (\<lambda>k. []),
      Info = None,
      Auth = None,
      JSONBody = None,
      RawBody = None,
      ClassName = [],
      ObjectID = [],
      Status = None,
      OutputHeader = [],
      DataJSON = None,
      Served = False\<rparr>"

text \<open>
  A controller after \<^verbatim>\<open>Prepare\<close>, for a request on an object of class \<^verbatim>\<open>_User\<close> by the user
  \<^verbatim>\<open>u1\<close> with the session token \<^verbatim>\<open>r:now\<close>, and for the same request without a session.
\<close>

definition signedIn :: "string \<Rightarrow> ClassesController" where
  "signedIn oid =
     (request [] None ''/classes/_User'')
       \<lparr>Info := Some \<lparr>AppID = ''app'', MasterKey = [], ClientKey = ''client'', SessionToken = ''r:now'',
                       InstallationID = [], ClientVersion = [], ClientSDK = None\<rparr>,
        Auth := Some \<lparr>IsMaster = False, Auth_InstallationID = [],
                       User = Some [(''objectId'', Str ''u1'')], UserRoles = []\<rparr>,
        ClassName := ''_User'',
        ObjectID := oid\<rparr>"

definition anonymous :: "string \<Rightarrow> ClassesController" where
  "anonymous oid =
     (request [] None ''/classes/_User'')
       \<lparr>Info := Some \<lparr>AppID = ''app'', MasterKey = [], ClientKey = ''client'', SessionToken = [],
                       InstallationID = [], ClientVersion = [], ClientSDK = None\<rparr>,
        Auth := Some \<lparr>IsMaster = False, Auth_InstallationID = [], User = None, UserRoles = []\<rparr>,
        ClassName := ''_User'',
        ObjectID := oid\<rparr>"










subsection \<open>Account lockout\<close>

text \<open>The user of the tests, with a counter and an expiry.\<close>

definition joe :: "int option \<Rightarrow> int option \<Rightarrow> UserObject" where
  "joe n t = \<lparr>username = ''joe'', failed_login_count = n, account_lockout_expires_at = t\<rparr>"

section \<open>Reading, deleting and writing keys\<close>






lemma mdelete_eq_None [simp]: "(mdelete k m = None) = (m = None)"
  by (simp add: mdelete_def)







section \<open>Properties of the Destroy orchestrator\<close>

lemmas Execute_defs =
  Execute_def handleSession_def runBeforeTrigger_def handleUserRoles_def runDestroy_def
  runAfterTrigger_def

lemma NewDestroy_fields [simp]:
  "auth (NewDestroy a c q od) = a" "className (NewDestroy a c q od) = c"
  "query (NewDestroy a c q od) = q" "originalData (NewDestroy a c q od) = od"
  by (simp_all add: NewDestroy_def)

text \<open>What \<^verbatim>\<open>Execute\<close> does, by the caller: no authorization, the master key, any other.\<close>

lemma Execute_nil_auth:
  "auth d = None \<Longrightarrow>
     Execute env d
       = (Panicked NilDereference,
          [CallRunTrigger TypeBeforeDelete (className d) None None (originalData d)])"
  by (simp add: Execute_defs Let_def)

lemma Execute_master:
  "auth d = Some a \<Longrightarrow> IsMaster a \<Longrightarrow>
     Execute env d
       = (Returned None,
          [CallRunTrigger TypeBeforeDelete (className d) (Some a) None (originalData d),
           CallOrmDestroy (className d) (query d) [],
           CallRunTrigger TypeAfterDelete (className d) (Some a) None (originalData d)])"
  by (simp add: Execute_defs Let_def)

lemma Execute_not_master:
  "auth d = Some a \<Longrightarrow> \<not> IsMaster a \<Longrightarrow>
     Execute env d
       = (case destroyACL (a\<lparr>UserRoles := fst (GetUserRoles env a)\<rparr>) of
            Panicked p \<Rightarrow>
              (Panicked p,
               [CallRunTrigger TypeBeforeDelete (className d) (Some a) None (originalData d),
                CallGetUserRoles a])
          | Returned acl \<Rightarrow>
              (Returned None,
               [CallRunTrigger TypeBeforeDelete (className d) (Some a) None (originalData d),
                CallGetUserRoles a,
                CallOrmDestroy (className d) (query d) [(''acl'', StrSlice acl)],
                CallRunTrigger TypeAfterDelete (className d)
                  (Some (a\<lparr>UserRoles := fst (GetUserRoles env a)\<rparr>)) None (originalData d)]))"
  by (cases "GetUserRoles env a")
    (simp add: Execute_defs Let_def split: outcome.splits)

lemma destroyACL_anonymous: "User a = None \<Longrightarrow> destroyACL a = Returned [''*'']"
  by (simp add: destroyACL_def)

lemma destroyACL_user:
  "User a = Some u \<Longrightarrow> mget (Some u) ''objectId'' = Str uid \<Longrightarrow>
     destroyACL a = Returned (''*'' # uid # UserRoles a)"
  by (simp add: destroyACL_def assertString_def)

lemma destroyACL_cases:
  "(\<exists>acl. destroyACL a = Returned acl) \<or> destroyACL a = Panicked TypeAssertion"
  by (auto simp: destroyACL_def assertString_def split: option.splits gval.splits)

lemma Execute_outcome:
  "fst (Execute env d) = Returned None \<or> (\<exists>p. fst (Execute env d) = Panicked p)"
proof (cases "auth d")
  case None
  then show ?thesis by (simp add: Execute_nil_auth)
next
  case (Some a)
  show ?thesis
  proof (cases "IsMaster a")
    case True
    with Some show ?thesis by (simp add: Execute_master)
  next
    case False
    with Some destroyACL_cases [of "a\<lparr>UserRoles := fst (GetUserRoles env a)\<rparr>"] show ?thesis
      by (auto simp: Execute_not_master)
  qed
qed

lemma Execute_deletes:
  "fst (Execute env d) = Returned r \<Longrightarrow>
     \<exists>opts. storeDeletes (Execute env d) = [CallOrmDestroy (className d) (query d) opts]"
proof (cases "auth d")
  case None
  assume "fst (Execute env d) = Returned r"
  with None show ?thesis by (simp add: Execute_nil_auth)
next
  case (Some a)
  assume r: "fst (Execute env d) = Returned r"
  show ?thesis
  proof (cases "IsMaster a")
    case True
    with Some show ?thesis by (simp add: Execute_master storeDeletes_def)
  next
    case False
    with Some r destroyACL_cases [of "a\<lparr>UserRoles := fst (GetUserRoles env a)\<rparr>"] show ?thesis
      by (auto simp: Execute_not_master storeDeletes_def)
  qed
qed

lemma Execute_without_RunTrigger:
  "Execute env d = Execute (env\<lparr>RunTrigger := f\<rparr>) d"
proof (cases "auth d")
  case None
  then show ?thesis by (simp add: Execute_nil_auth)
next
  case (Some a)
  then show ?thesis
    by (cases "IsMaster a") (simp_all add: Execute_master Execute_not_master split: outcome.splits)
qed

text \<open>
  C2, as the code has it. When the \<^verbatim>\<open>BeforeDelete\<close> hook answers an error, \<^verbatim>\<open>Execute\<close> does
  not abort: the error is dropped, the outcome and the calls are those of a run whose
  hook succeeds, and whenever \<^verbatim>\<open>Execute\<close> returns, it returns nil after one delete issued
  to the Store for the orchestrator's class and query.
\<close>

theorem Execute_drops_BeforeDelete_error:
  assumes "RunTrigger env TypeBeforeDelete (className d) (auth d) None (originalData d) = Some e"
  shows "Execute env d = Execute (env\<lparr>RunTrigger := \<lambda>t c a n od. None\<rparr>) d
         \<and> (\<forall>r. fst (Execute env d) = Returned r \<longrightarrow>
               r = None \<and> (\<exists>opts. storeDeletes (Execute env d)
                                     = [CallOrmDestroy (className d) (query d) opts]))"
proof (intro conjI allI impI)
  show "Execute env d = Execute (env\<lparr>RunTrigger := \<lambda>t c a n od. None\<rparr>) d"
    by (rule Execute_without_RunTrigger)
next
  fix r assume r: "fst (Execute env d) = Returned r"
  with Execute_outcome [of env d] show "r = None" by auto
  from r show "\<exists>opts. storeDeletes (Execute env d) = [CallOrmDestroy (className d) (query d) opts]"
    by (rule Execute_deletes)
qed

theorem Execute_drops_BeforeDelete_error_witness:
  "RunTrigger vetoEnv TypeBeforeDelete ''Locked'' (Some masterAuth) None None
     = Some (E (Code 141) ''delete refused'')
   \<and> Execute vetoEnv (NewDestroy (Some masterAuth) ''Locked'' lockedQuery None)
     = Execute (vetoEnv\<lparr>RunTrigger := \<lambda>t c a n od. None\<rparr>)
         (NewDestroy (Some masterAuth) ''Locked'' lockedQuery None)
   \<and> storeDeletes (Execute vetoEnv (NewDestroy (Some masterAuth) ''Locked'' lockedQuery None))
     = [CallOrmDestroy ''Locked'' lockedQuery []]"
proof -
  have h: "RunTrigger vetoEnv TypeBeforeDelete
             (className (NewDestroy (Some masterAuth) ''Locked'' lockedQuery None))
             (auth (NewDestroy (Some masterAuth) ''Locked'' lockedQuery None)) None
             (originalData (NewDestroy (Some masterAuth) ''Locked'' lockedQuery None))
           = Some (E (Code 141) ''delete refused'')"
    by (simp add: vetoEnv_def)
  have a: "auth (NewDestroy (Some masterAuth) ''Locked'' lockedQuery None) = Some masterAuth"
    "IsMaster masterAuth"
    by (simp_all add: masterAuth_def)
  have s: "storeDeletes (Execute vetoEnv (NewDestroy (Some masterAuth) ''Locked'' lockedQuery None))
           = [CallOrmDestroy ''Locked'' lockedQuery []]"
    by (simp add: Execute_master [OF a] storeDeletes_def)
  from Execute_drops_BeforeDelete_error [OF h] s show ?thesis
    by (simp add: vetoEnv_def)
qed

text \<open>
  C2, as the claim states it, fails: with a \<^verbatim>\<open>BeforeDelete\<close> hook that answers an error,
  \<^verbatim>\<open>Execute\<close> returns nil, not the error, and the delete reaches the Store.
\<close>

theorem Execute_BeforeDelete_abort_counterexample:
  "RunTrigger vetoEnv TypeBeforeDelete ''Locked'' (Some masterAuth) None None
     = Some (E (Code 141) ''delete refused'')
   \<and> Execute vetoEnv (NewDestroy (Some masterAuth) ''Locked'' lockedQuery None)
     = (Returned None,
        [CallRunTrigger TypeBeforeDelete ''Locked'' (Some masterAuth) None None,
         CallOrmDestroy ''Locked'' lockedQuery [],
         CallRunTrigger TypeAfterDelete ''Locked'' (Some masterAuth) None None])"
proof -
  have a: "auth (NewDestroy (Some masterAuth) ''Locked'' lockedQuery None) = Some masterAuth"
    "IsMaster masterAuth"
    by (simp_all add: masterAuth_def)
  show ?thesis
    by (simp add: Execute_master [OF a] vetoEnv_def)
qed

text \<open>
  C4. The delete that \<^verbatim>\<open>Execute\<close> issues to the Store is a delete by query, for the class and
  the query of the orchestrator. For a master caller its options are empty. For any other
  caller its \<^verbatim>\<open>acl\<close> option lists \<^verbatim>\<open>*\<close>, and for a signed-in caller also the caller's id and
  then the resolved roles.
\<close>

theorem Execute_delete_acl:
  "(auth d = Some a \<and> IsMaster a \<longrightarrow>
      storeDeletes (Execute env d) = [CallOrmDestroy (className d) (query d) []])
   \<and> (auth d = Some a \<and> \<not> IsMaster a \<and> User a = None \<longrightarrow>
      storeDeletes (Execute env d)
        = [CallOrmDestroy (className d) (query d) [(''acl'', StrSlice [''*''])]])
   \<and> (auth d = Some a \<and> \<not> IsMaster a \<and> User a = Some u \<and> mget (Some u) ''objectId'' = Str uid \<longrightarrow>
      storeDeletes (Execute env d)
        = [CallOrmDestroy (className d) (query d)
             [(''acl'', StrSlice (''*'' # uid # fst (GetUserRoles env a)))]])"
proof (intro conjI impI)
  assume "auth d = Some a \<and> IsMaster a"
  then show "storeDeletes (Execute env d) = [CallOrmDestroy (className d) (query d) []]"
    by (simp add: Execute_master storeDeletes_def)
next
  assume h: "auth d = Some a \<and> \<not> IsMaster a \<and> User a = None"
  then have "destroyACL (a\<lparr>UserRoles := fst (GetUserRoles env a)\<rparr>) = Returned [''*'']"
    by (simp add: destroyACL_anonymous)
  with h show "storeDeletes (Execute env d)
        = [CallOrmDestroy (className d) (query d) [(''acl'', StrSlice [''*''])]]"
    by (simp add: Execute_not_master storeDeletes_def)
next
  assume h: "auth d = Some a \<and> \<not> IsMaster a \<and> User a = Some u \<and> mget (Some u) ''objectId'' = Str uid"
  then have "destroyACL (a\<lparr>UserRoles := fst (GetUserRoles env a)\<rparr>)
               = Returned (''*'' # uid # fst (GetUserRoles env a))"
    by (simp add: destroyACL_user)
  with h show "storeDeletes (Execute env d)
        = [CallOrmDestroy (className d) (query d)
             [(''acl'', StrSlice (''*'' # uid # fst (GetUserRoles env a)))]]"
    by (simp add: Execute_not_master storeDeletes_def)
qed

theorem Execute_delete_acl_witness:
  "IsMaster masterAuth \<and> \<not> IsMaster anonymousAuth \<and> User anonymousAuth = None
   \<and> \<not> IsMaster userAuth \<and> User userAuth = Some [(''objectId'', Str ''u1'')]
   \<and> storeDeletes (Execute vetoEnv (NewDestroy (Some masterAuth) ''Game'' lockedQuery None))
       = [CallOrmDestroy ''Game'' lockedQuery []]
   \<and> storeDeletes (Execute vetoEnv (NewDestroy (Some anonymousAuth) ''Game'' lockedQuery None))
       = [CallOrmDestroy ''Game'' lockedQuery [(''acl'', StrSlice [''*''])]]
   \<and> storeDeletes (Execute vetoEnv (NewDestroy (Some userAuth) ''Game'' lockedQuery None))
       = [CallOrmDestroy ''Game'' lockedQuery [(''acl'', StrSlice [''*'', ''u1'', ''role:admin''])]]"
  using Execute_delete_acl [of "NewDestroy (Some masterAuth) ''Game'' lockedQuery None" masterAuth vetoEnv]
    Execute_delete_acl [of "NewDestroy (Some anonymousAuth) ''Game'' lockedQuery None" anonymousAuth vetoEnv]
    Execute_delete_acl [of "NewDestroy (Some userAuth) ''Game'' lockedQuery None" userAuth vetoEnv
                           "[(''objectId'', Str ''u1'')]" "''u1''"]
  by (simp add: masterAuth_def anonymousAuth_def userAuth_def vetoEnv_def mget_def)

text \<open>
  C9. \<^verbatim>\<open>Execute\<close> never returns anything but nil, whatever errors the triggers, the role
  resolution and the Store's delete answer; and it does return (its panics are a nil
  \<^verbatim>\<open>d.auth\<close> and the type assertion on the id of a signed-in user) for a master caller, for
  an anonymous caller and for a signed-in caller whose \<^verbatim>\<open>objectId\<close> is a string.
\<close>

theorem Execute_returns_nil:
  "fst (Execute env d) \<noteq> Returned (Some m)
   \<and> (auth d = Some a
        \<and> (IsMaster a \<or> User a = None \<or> (\<exists>uid. mget (User a) ''objectId'' = Str uid))
        \<longrightarrow> fst (Execute env d) = Returned None)"
proof (intro conjI impI)
  from Execute_outcome [of env d] show "fst (Execute env d) \<noteq> Returned (Some m)"
    by auto
next
  assume h: "auth d = Some a
        \<and> (IsMaster a \<or> User a = None \<or> (\<exists>uid. mget (User a) ''objectId'' = Str uid))"
  show "fst (Execute env d) = Returned None"
  proof (cases "IsMaster a")
    case True
    with h show ?thesis by (simp add: Execute_master)
  next
    case False
    from h False have "\<exists>acl. destroyACL (a\<lparr>UserRoles := fst (GetUserRoles env a)\<rparr>) = Returned acl"
      by (cases "User a") (auto simp: destroyACL_anonymous destroyACL_user)
    with h False show ?thesis
      by (auto simp: Execute_not_master)
  qed
qed

theorem Execute_returns_nil_witness:
  "RunTrigger failingEnv TypeBeforeDelete ''Game'' (Some userAuth) None None \<noteq> None
   \<and> RunTrigger failingEnv TypeAfterDelete ''Game'' (Some userAuth) None None \<noteq> None
   \<and> snd (GetUserRoles failingEnv userAuth) \<noteq> None
   \<and> orm_Destroy failingEnv ''Game'' lockedQuery [(''acl'', StrSlice [''*'', ''u1''])] \<noteq> None
   \<and> mget (User userAuth) ''objectId'' = Str ''u1''
   \<and> fst (Execute failingEnv (NewDestroy (Some userAuth) ''Game'' lockedQuery None)) = Returned None"
proof -
  have h: "auth (NewDestroy (Some userAuth) ''Game'' lockedQuery None) = Some userAuth"
    "mget (User userAuth) ''objectId'' = Str ''u1''"
    by (simp_all add: userAuth_def mget_def)
  from Execute_returns_nil [of failingEnv "NewDestroy (Some userAuth) ''Game'' lockedQuery None" _ userAuth] h
  show ?thesis
    by (simp add: failingEnv_def)
qed


section \<open>Properties of the account lockout\<close>

text \<open>The model against the cases of the tests that are among the sources.\<close>

lemma Test_notLocked:
  "now < t0 + 5 * time_Minute \<Longrightarrow>
     notLocked exampleConfig now ''joe'' [joe (Some 3) (Some (t0 + 5 * time_Minute))]
       = Some (E ObjectNotFound
          (''Your account is locked due to multiple failed login attempts. Please try again after ''
             @ strconv_Itoa 5 @ '' minute(s)''))"
  "notLocked exampleConfig now ''joe'' [joe (Some 1) (Some (t0 + 5 * time_Minute))] = None"
  "t0 \<le> now \<Longrightarrow>
     notLocked exampleConfig now ''joe'' [joe (Some 3) (Some (t0 - 5 * time_Minute))] = None"
  by (simp_all add: notLocked_def isLockedRecord_def lockedMessage_def exampleConfig_def joe_def
      time_Minute_def)

lemma Test_setFailedLoginCount:
  "setFailedLoginCount 0 ''joe'' [joe None None] = [joe (Some 0) None]"
  by (simp add: setFailedLoginCount_def joe_def)

lemma Test_incrementFailedLoginCount:
  "incrementFailedLoginCount ''joe'' [joe (Some 0) None] = [joe (Some 1) None]"
  by (simp add: incrementFailedLoginCount_def joe_def)

lemma Test_setLockoutExpiration:
  "setLockoutExpiration exampleConfig now ''joe'' [joe (Some 1) None] = [joe (Some 1) None]"
  "setLockoutExpiration exampleConfig now ''joe'' [joe (Some 3) None]
     = [joe (Some 3) (Some (now + 5 * time_Minute))]"
  by (simp_all add: setLockoutExpiration_def exampleConfig_def joe_def)

lemma Test_isFailedLoginCountSet:
  "isFailedLoginCountSet ''joe'' [joe None None] = False"
  "isFailedLoginCountSet ''joe'' [joe (Some 3) None] = True"
  by (simp_all add: isFailedLoginCountSet_def joe_def)

lemma notLocked_fails:
  "(notLocked cfg now u users \<noteq> None) =
     (\<exists>r \<in> set users. username r = u
        \<and> (\<exists>t. account_lockout_expires_at r = Some t \<and> now < t)
        \<and> (\<exists>n. failed_login_count r = Some n \<and> AccountLockoutThreshold cfg \<le> n))"
proof -
  have "(filter (isLockedRecord cfg now u) users \<noteq> []) = (\<exists>r \<in> set users. isLockedRecord cfg now u r)"
    by (simp add: filter_empty_conv)
  moreover have "\<And>r. isLockedRecord cfg now u r =
      (username r = u \<and> (\<exists>t. account_lockout_expires_at r = Some t \<and> now < t)
        \<and> (\<exists>n. failed_login_count r = Some n \<and> AccountLockoutThreshold cfg \<le> n))"
    by (auto simp: isLockedRecord_def split: option.splits)
  ultimately show ?thesis
    by (simp add: notLocked_def)
qed

text \<open>
  C3. \<^verbatim>\<open>notLocked\<close> fails with \<^verbatim>\<open>ObjectNotFound\<close> and the message that names the configured
  lockout duration exactly when the Store holds a record of the user with
  \<^verbatim>\<open>now < _account_lockout_expires_at\<close> and \<^verbatim>\<open>_failed_login_count >= threshold\<close>; in every other
  case, an expiry that has passed among them, it succeeds.
\<close>

theorem notLocked_fails_iff_locked:
  "((notLocked cfg now u users =
       Some (E ObjectNotFound
         (''Your account is locked due to multiple failed login attempts. Please try again after ''
            @ strconv_Itoa (AccountLockoutDuration cfg) @ '' minute(s)'')))
     \<longleftrightarrow> (\<exists>r \<in> set users. username r = u
            \<and> (\<exists>t. account_lockout_expires_at r = Some t \<and> now < t)
            \<and> (\<exists>n. failed_login_count r = Some n \<and> AccountLockoutThreshold cfg \<le> n)))
   \<and> ((notLocked cfg now u users = None)
     \<longleftrightarrow> \<not> (\<exists>r \<in> set users. username r = u
            \<and> (\<exists>t. account_lockout_expires_at r = Some t \<and> now < t)
            \<and> (\<exists>n. failed_login_count r = Some n \<and> AccountLockoutThreshold cfg \<le> n)))"
proof -
  have "notLocked cfg now u users = None \<or> notLocked cfg now u users =
      Some (E ObjectNotFound
        (''Your account is locked due to multiple failed login attempts. Please try again after ''
           @ strconv_Itoa (AccountLockoutDuration cfg) @ '' minute(s)''))"
    by (simp add: notLocked_def lockedMessage_def)
  with notLocked_fails [of cfg now u users] show ?thesis
    by auto
qed

theorem notLocked_fails_iff_locked_witness:
  "notLocked exampleConfig 1000 ''joe'' [joe (Some 3) (Some (1000 + 5 * time_Minute))]
     = Some (E ObjectNotFound
        ''Your account is locked due to multiple failed login attempts. Please try again after 5 minute(s)'')
   \<and> notLocked exampleConfig 1000 ''joe'' [joe (Some 1) (Some (1000 + 5 * time_Minute))] = None
   \<and> notLocked exampleConfig 1000 ''joe'' [joe (Some 3) (Some (1000 - 5 * time_Minute))] = None
   \<and> notLocked exampleConfig 1000 ''ann'' [joe (Some 3) (Some (1000 + 5 * time_Minute))] = None"
  using notLocked_fails_iff_locked [of exampleConfig 1000 "''joe''" "[joe (Some 3) (Some (1000 + 5 * time_Minute))]"]
    notLocked_fails_iff_locked [of exampleConfig 1000 "''joe''" "[joe (Some 1) (Some (1000 + 5 * time_Minute))]"]
    notLocked_fails_iff_locked [of exampleConfig 1000 "''joe''" "[joe (Some 3) (Some (1000 - 5 * time_Minute))]"]
    notLocked_fails_iff_locked [of exampleConfig 1000 "''ann''" "[joe (Some 3) (Some (1000 + 5 * time_Minute))]"]
  by (simp add: exampleConfig_def joe_def time_Minute_def strconv_Itoa_def digitsOf.simps)

lemma count_not_set:
  "\<not> isFailedLoginCountSet u users \<Longrightarrow> r \<in> set users \<Longrightarrow> username r = u \<Longrightarrow> failed_login_count r = None"
  by (auto simp: isFailedLoginCountSet_def filter_empty_conv)

text \<open>
  C7. A failed password check changes the objects of the user and no other: the counter
  becomes 1 when it was not set and one more otherwise, and the expiry becomes \<^verbatim>\<open>now\<close> plus
  the lockout duration in minutes when the new count has reached the threshold and is left
  as it was (not set, if it was not set) when the new count is below the threshold.
\<close>

theorem handleFailedLoginAttempt_counts:
  "handleFailedLoginAttempt cfg now u users =
     map (\<lambda>r. if username r = u
               then r\<lparr>failed_login_count :=
                         Some (case failed_login_count r of None \<Rightarrow> 1 | Some n \<Rightarrow> n + 1),
                       account_lockout_expires_at :=
                         (if AccountLockoutThreshold cfg
                               \<le> (case failed_login_count r of None \<Rightarrow> 1 | Some n \<Rightarrow> n + 1)
                          then Some (now + AccountLockoutDuration cfg * time_Minute)
                          else account_lockout_expires_at r)\<rparr>
               else r) users"
proof (cases "isFailedLoginCountSet u users")
  case True
  then show ?thesis
    by (simp add: handleFailedLoginAttempt_def setLockoutExpiration_def incrementFailedLoginCount_def)
next
  case False
  then show ?thesis
    by (auto simp: handleFailedLoginAttempt_def setLockoutExpiration_def setFailedLoginCount_def
        dest: count_not_set)
qed

theorem handleFailedLoginAttempt_counts_witness:
  "handleFailedLoginAttempt exampleConfig 1000 ''joe'' [joe None None] = [joe (Some 1) None]
   \<and> handleFailedLoginAttempt exampleConfig 1000 ''joe'' [joe (Some 1) None] = [joe (Some 2) None]
   \<and> handleFailedLoginAttempt exampleConfig 1000 ''joe'' [joe (Some 2) None]
       = [joe (Some 3) (Some (1000 + 5 * time_Minute))]
   \<and> handleFailedLoginAttempt exampleConfig 1000 ''ann'' [joe (Some 2) None] = [joe (Some 2) None]"
  using handleFailedLoginAttempt_counts [of exampleConfig 1000 "''joe''" "[joe None None]"]
    handleFailedLoginAttempt_counts [of exampleConfig 1000 "''joe''" "[joe (Some 1) None]"]
    handleFailedLoginAttempt_counts [of exampleConfig 1000 "''joe''" "[joe (Some 2) None]"]
    handleFailedLoginAttempt_counts [of exampleConfig 1000 "''ann''" "[joe (Some 2) None]"]
  by (simp add: exampleConfig_def joe_def time_Minute_def)


section \<open>Properties of Prepare\<close>

subsection \<open>What each step leaves alone\<close>














lemma Prepare_clientSDK_fields [simp]:
  "AppID (Prepare_clientSDK env info) = AppID info"
  "MasterKey (Prepare_clientSDK env info) = MasterKey info"
  "ClientKey (Prepare_clientSDK env info) = ClientKey info"
  "SessionToken (Prepare_clientSDK env info) = SessionToken info"
  "InstallationID (Prepare_clientSDK env info) = InstallationID info"
  by (simp_all add: Prepare_clientSDK_def)

lemma Prepare_credentials_fields [simp]:
  "JSONBody (Prepare_credentials env cfg info c) = JSONBody c"
  "Header (Prepare_credentials env cfg info c) = Header c"
  "URL (Prepare_credentials env cfg info c) = URL c"
  "RawBody (Prepare_credentials env cfg info c) = RawBody c"
  by (simp_all add: Prepare_credentials_def Let_def split: prod.splits option.splits)


subsection \<open>The path of a request\<close>



subsection \<open>The precedence of the keys\<close>







subsection \<open>The reserved keys of the body\<close>

















lemmas handler_defs =
  serveRequest_def response_def HandleCreate_def HandleGet_def HandleUpdate_def HandleFind_def
  Find_options_def Find_results_def Find_sessionToken_def Get_sessionToken_def utils_A_def
  utils_M_def utils_HasResults_def setClassName_def setObjectID_def serve_def len_def elems_def



subsection \<open>A body that is not JSON\<close>




section \<open>Properties of the handlers\<close>

lemma setObjectID_fields [simp]:
  "ClassName (setObjectID c) = ClassName c" "Auth (setObjectID c) = Auth c" "Info (setObjectID c) = Info c"
  by (simp_all add: setObjectID_def)

lemma setClassName_fields [simp]:
  "Auth (setClassName c) = Auth c" "Info (setClassName c) = Info c"
  by (simp_all add: setClassName_def)

subsection \<open>A Get without results\<close>

text \<open>
  When the Get of package \<^verbatim>\<open>rest\<close> answers without an error, a \<^verbatim>\<open>results\<close> that is missing (or
  no list) is answered \<^verbatim>\<open>ObjectNotFound\<close>, and a \<^verbatim>\<open>results\<close> that is the empty list makes
  \<^verbatim>\<open>results[0]\<close> panic: the test \<^verbatim>\<open>results == nil && len(results) == 0\<close> holds of the nil
  slice only.
\<close>

lemma HandleGet_zero_results:
  assumes "Info c = Some info"
    and "\<And>opts. rest_Get env (Auth c) (ClassName (setClassName c)) (ObjectID (setObjectID (setClassName c)))
                   opts (ClientSDK info) = (resp, None)"
  shows "(utils_A (mget resp ''results'') = None \<longrightarrow>
            response (HandleGet env c)
              = Returned (Some (ErrorMessageToMap ObjectNotFound ''Object not found.'')))
       \<and> (utils_A (mget resp ''results'') = Some [] \<longrightarrow>
            response (HandleGet env c) = Panicked IndexOutOfRange)"
  using assms
  by (simp add: response_def HandleGet_def serve_def len_def elems_def Let_def)

lemmas example_defs = exampleEnv_def exampleConfig_def joeRow_def annRow_def request_def
  signedIn_def anonymous_def

lemmas eval_defs = mget_def mdelete_def andThen_def assertString_def

text \<open>
  C6 fails on the code. A Get of an object that is not there, for which the Get of
  package \<^verbatim>\<open>rest\<close> answers the empty list of results, ends in the panic of an index out of
  range, not in \<^verbatim>\<open>ObjectNotFound\<close>.
\<close>

theorem HandleGet_empty_results_panics:
  "rest_Get exampleEnv (Auth (signedIn ''gone'')) ''_User'' ''gone'' [] None
     = (Some [(''results'', Slice [])], None)
   \<and> response (HandleGet exampleEnv (signedIn ''gone'')) = Panicked IndexOutOfRange"
  by (simp add: handler_defs eval_defs example_defs Let_def)

subsection \<open>The session token of the results\<close>











end
